theory Spec2Isabelle
  imports Main "HOL-Library.Word"
begin

section \<open>Python values and exceptions\<close>

text \<open>
  The event handed to a handler is a Python object obtained from JSON text: \<open>None\<close>,
  a \<open>bool\<close>, an \<open>int\<close>, a \<open>float\<close> (its 64 bits; the handlers never look inside a
  number), a \<open>str\<close>, a \<open>list\<close> or a \<open>dict\<close> with \<open>str\<close> keys. A \<open>dict\<close> is an
  association list read with \<open>map_of\<close>. A \<open>str\<close> is a \<open>string\<close>: code points below 256.
\<close>

datatype json =
    JNull
  | JBool bool
  | JInt int
  | JFloat "64 word"
  | JStr string
  | JArr "json list"
  | JObj "(string \<times> json) list"

text \<open>
  The built-in exceptions the two modules can raise, and what leaves a handler: one of
  them, or the exception \<open>e\<close> of the table client, passing through as it is (no handler
  has a \<open>try\<close>).
\<close>

datatype pyerr =
    AttributeError
  | IndexError
  | KeyError
  | TypeError

datatype 'e raised =
    Builtin pyerr
  | TableFailure 'e

text \<open>\<open>x.get(k, d)\<close>: a method of \<open>dict\<close> only; any other object has no attribute \<open>get\<close>.\<close>

fun py_get :: "json \<Rightarrow> string \<Rightarrow> json \<Rightarrow> pyerr + json" where
  "py_get (JObj kvs) k d = Inr (case map_of kvs k of Some v \<Rightarrow> v | None \<Rightarrow> d)"
| "py_get JNull k d = Inl AttributeError"
| "py_get (JBool b) k d = Inl AttributeError"
| "py_get (JInt i) k d = Inl AttributeError"
| "py_get (JFloat f) k d = Inl AttributeError"
| "py_get (JStr s) k d = Inl AttributeError"
| "py_get (JArr xs) k d = Inl AttributeError"

text \<open>
  \<open>x[0]\<close>: the first element of a list, the first character of a string (a string of
  length one), \<open>IndexError\<close> when either is empty, \<open>KeyError\<close> on a dict (its keys are
  strings, never \<open>0\<close>), \<open>TypeError\<close> on an object that is not subscriptable.
\<close>

fun py_item0 :: "json \<Rightarrow> pyerr + json" where
  "py_item0 (JArr []) = Inl IndexError"
| "py_item0 (JArr (x # xs)) = Inr x"
| "py_item0 (JStr []) = Inl IndexError"
| "py_item0 (JStr (c # cs)) = Inr (JStr [c])"
| "py_item0 (JObj kvs) = Inl KeyError"
| "py_item0 JNull = Inl TypeError"
| "py_item0 (JBool b) = Inl TypeError"
| "py_item0 (JInt i) = Inl TypeError"
| "py_item0 (JFloat f) = Inl TypeError"

text \<open>Sequencing: the first exception raised ends the evaluation.\<close>

fun and_then :: "'e + 'a \<Rightarrow> ('a \<Rightarrow> 'e + 'b) \<Rightarrow> 'e + 'b" where
  "and_then (Inl e) f = Inl e"
| "and_then (Inr x) f = f x"

section \<open>The clock: \<open>datetime.utcnow().isoformat()\<close>\<close>

text \<open>
  \<open>datetime.utcnow()\<close> returns a naive datetime (no \<open>tzinfo\<close>); the clock reading is an
  input of the handler.
\<close>

record datetime =
  year :: nat
  month :: nat
  day :: nat
  hour :: nat
  minute :: nat
  second :: nat
  microsecond :: nat

definition valid_datetime :: "datetime \<Rightarrow> bool" where
  "valid_datetime dt \<longleftrightarrow>
     1 \<le> year dt \<and> year dt \<le> 9999 \<and> 1 \<le> month dt \<and> month dt \<le> 12 \<and>
     1 \<le> day dt \<and> day dt \<le> 31 \<and> hour dt < 24 \<and> minute dt < 60 \<and> second dt < 60 \<and>
     microsecond dt < 1000000"

definition digit :: "nat \<Rightarrow> char" where
  "digit n = char_of (48 + n)"

fun dec :: "nat \<Rightarrow> string" where
  "dec n = (if n < 10 then [digit n] else dec (n div 10) @ [digit (n mod 10)])"

declare dec.simps [simp del]

text \<open>\<open>'%0wd' % n\<close>: decimal, padded with zeros on the left to at least \<open>w\<close> characters.\<close>

definition zero_padded :: "nat \<Rightarrow> nat \<Rightarrow> string" where
  "zero_padded w n = replicate (w - length (dec n)) (CHR ''0'') @ dec n"

definition isoformat_seconds :: "datetime \<Rightarrow> string" where
  "isoformat_seconds dt =
     zero_padded 4 (year dt) @ ''-'' @ zero_padded 2 (month dt) @ ''-'' @ zero_padded 2 (day dt)
     @ ''T'' @ zero_padded 2 (hour dt) @ '':'' @ zero_padded 2 (minute dt) @ '':''
     @ zero_padded 2 (second dt)"

text \<open>
  \<open>isoformat()\<close> of a naive datetime, with the default \<open>timespec='auto'\<close>: the fraction is
  written only when \<open>microsecond\<close> is not 0, and there is no offset.
\<close>

definition isoformat :: "datetime \<Rightarrow> string" where
  "isoformat dt =
     isoformat_seconds dt
     @ (if microsecond dt = 0 then [] else ''.'' @ zero_padded 6 (microsecond dt))"

text \<open>
  The rendering the specification describes: ISO-8601 with microsecond precision and no
  timezone suffix, that is \<open>YYYY-MM-DDTHH:MM:SS.ffffff\<close>.
\<close>

definition iso8601_microseconds :: "datetime \<Rightarrow> string" where
  "iso8601_microseconds dt = isoformat_seconds dt @ ''.'' @ zero_padded 6 (microsecond dt)"

section \<open>The Notifier Handler: \<open>Lambda/lambda_function.py\<close>\<close>

text \<open>
  Module initialisation: \<open>table_name = os.environ["DDB_TABLE"]\<close> raises \<open>KeyError\<close> when the
  variable is not set; \<open>dynamodb.Table(table_name)\<close> is the handle of the table of that
  name.
\<close>

definition table_name :: "(string \<rightharpoonup> string) \<Rightarrow> pyerr + string" where
  "table_name environ =
     (case environ ''DDB_TABLE'' of None \<Rightarrow> Inl KeyError | Some n \<Rightarrow> Inr n)"

text \<open>
  The item of a \<open>put_item\<close> call is a dict from attribute names to values. The world a
  handler runs in is the state of the table service and, for the statements below, the
  list of the items \<open>put_item\<close> was called with, oldest first.
\<close>

type_synonym item = "(string \<times> json) list"

record 'db world =
  table_state :: 'db
  put_calls :: "item list"

text \<open>
  \<open>event.get("Records", [{}])[0].get("Sns", {}).get("Message", "Test alert")\<close>, evaluated
  from left to right.
\<close>

definition extract_message :: "json \<Rightarrow> pyerr + json" where
  "extract_message event =
     and_then (py_get event ''Records'' (JArr [JObj []])) (\<lambda>records.
     and_then (py_item0 records) (\<lambda>first.
     and_then (py_get first ''Sns'' (JObj [])) (\<lambda>sns.
     py_get sns ''Message'' (JStr ''Test alert''))))"

text \<open>
  The handler. \<open>put_item tn item db\<close> is the table client's \<open>put_item\<close> on the table
  named \<open>tn\<close>: it returns the new state of the service or raises. \<open>now\<close> is what
  \<open>datetime.utcnow()\<close> returns. The first statement prints the serialised event to the
  log stream, which is not part of the world modelled here; it does not raise on an
  object obtained from JSON text.
\<close>

definition lambda_handler ::
  "(string \<Rightarrow> item \<Rightarrow> 'db \<Rightarrow> 'e + 'db) \<Rightarrow> string \<Rightarrow> datetime \<Rightarrow> json \<Rightarrow> 'c \<Rightarrow> 'db world
     \<Rightarrow> ('e raised + json) \<times> 'db world" where
  "lambda_handler put_item tn now event context w =
     (let timestamp = isoformat now in
      case extract_message event of
        Inl e \<Rightarrow> (Inl (Builtin e), w)
      | Inr message \<Rightarrow>
          (let item = [(''id'', JStr timestamp), (''message'', message)];
               w1 = w\<lparr>put_calls := put_calls w @ [item]\<rparr>
           in case put_item tn item (table_state w) of
                Inl e \<Rightarrow> (Inl (TableFailure e), w1)
              | Inr db' \<Rightarrow>
                  (Inr (JObj [(''statusCode'', JInt 200), (''body'', JStr ''Log stored'')]),
                   w1\<lparr>table_state := db'\<rparr>)))"

text \<open>
  A cold start followed by one invocation: the runtime imports the module and calls the
  handler only if the import did not raise.
\<close>

definition cold_start_invoke ::
  "(string \<Rightarrow> item \<Rightarrow> 'db \<Rightarrow> 'e + 'db) \<Rightarrow> (string \<rightharpoonup> string) \<Rightarrow> datetime \<Rightarrow> json \<Rightarrow> 'c
     \<Rightarrow> 'db world \<Rightarrow> ('e raised + json) \<times> 'db world" where
  "cold_start_invoke put_item environ now event context w =
     (case table_name environ of
        Inl e \<Rightarrow> (Inl (Builtin e), w)
      | Inr tn \<Rightarrow> lambda_handler put_item tn now event context w)"

text \<open>
  The specification's reading of the event: the value at the path
  \<open>Records[0].Sns.Message\<close>, \<open>None\<close> when a step of the path is absent (the event is not
  an object, has no \<open>Records\<close>, \<open>Records\<close> is not a list or is empty, its first element is
  not an object or has no \<open>Sns\<close>, \<open>Sns\<close> is not an object or has no \<open>Message\<close>).
\<close>

definition spec_message_path :: "json \<Rightarrow> json option" where
  "spec_message_path event =
     (case event of
        JObj ev \<Rightarrow>
          (case map_of ev ''Records'' of
             None \<Rightarrow> None
           | Some records \<Rightarrow>
               (case records of
                  JArr (first # rest) \<Rightarrow>
                    (case first of
                       JObj r \<Rightarrow>
                         (case map_of r ''Sns'' of
                            None \<Rightarrow> None
                          | Some sns \<Rightarrow>
                              (case sns of JObj s \<Rightarrow> map_of s ''Message'' | _ \<Rightarrow> None))
                     | _ \<Rightarrow> None)
                | _ \<Rightarrow> None))
      | _ \<Rightarrow> None)"

text \<open>
  The events on which every step of the lookup finds an object of the kind the next step
  needs: an object whose \<open>Records\<close>, when present, is a list starting with an object whose
  \<open>Sns\<close>, when present, is an object.
\<close>

definition lookup_shape :: "json \<Rightarrow> bool" where
  "lookup_shape event =
     (case event of
        JObj ev \<Rightarrow>
          (case map_of ev ''Records'' of
             None \<Rightarrow> True
           | Some records \<Rightarrow>
               (case records of
                  JArr (first # rest) \<Rightarrow>
                    (case first of
                       JObj r \<Rightarrow>
                         (case map_of r ''Sns'' of
                            None \<Rightarrow> True
                          | Some sns \<Rightarrow> (case sns of JObj s \<Rightarrow> True | _ \<Rightarrow> False))
                     | _ \<Rightarrow> False)
                | _ \<Rightarrow> False))
      | _ \<Rightarrow> False)"

text \<open>The events that are objects, the only values with a method \<open>get\<close>.\<close>

fun is_object :: "json \<Rightarrow> bool" where
  "is_object (JObj kvs) = True"
| "is_object v = False"

section \<open>The Log Reader Handler: \<open>API_Integration/api_lambda.py\<close>\<close>

text \<open>
  Module initialisation: \<open>table_name = os.environ.get("DDB_TABLE", "CostTrackerLogs")\<close>.
\<close>

definition api_table_name :: "(string \<rightharpoonup> string) \<Rightarrow> string" where
  "api_table_name environ =
     (case environ ''DDB_TABLE'' of None \<Rightarrow> ''CostTrackerLogs'' | Some n \<Rightarrow> n)"

text \<open>
  The records a scan returns are built by the table client, which is not part of the
  repository. Its resource interface hands each stored item back as a \<open>dict\<close> from attribute
  names to Python values: a string attribute as a \<open>str\<close>, a number attribute as a
  \<open>Decimal\<close> (a coefficient and an exponent), a boolean as a \<open>bool\<close>, a null as \<open>None\<close>, a
  binary attribute as a \<open>Binary\<close>, a set attribute as a \<open>set\<close>, a list as a \<open>list\<close> and a
  map as a \<open>dict\<close>. The response of \<open>scan\<close> is a \<open>dict\<close> whose entry \<open>Items\<close>, when present,
  is the list of records.
\<close>

datatype pyval =
    PStr string
  | PDecimal int int
  | PBool bool
  | PNone
  | PBinary string
  | PSet "pyval list"
  | PList "pyval list"
  | PDict "(string \<times> pyval) list"

type_synonym log_record = "(string \<times> pyval) list"

record scan_response =
  Items :: "log_record list option"

subsection \<open>\<open>json.dumps\<close>\<close>

definition backslash :: char where
  "backslash = CHR 0x5C"

definition dquote :: char where
  "dquote = CHR 0x22"

definition hex_digit :: "nat \<Rightarrow> char" where
  "hex_digit n = ''0123456789abcdef'' ! n"

text \<open>
  The encoder of strings with \<open>ensure_ascii\<close> (the default): the backslash, the double
  quote and the five control characters with a short escape are written so; every other
  character outside the range from space to tilde is written \<open>\uXXXX\<close>.
\<close>

definition escape_char :: "char \<Rightarrow> string" where
  "escape_char c =
     (if c = backslash then [backslash, backslash]
      else if c = dquote then [backslash, dquote]
      else if c = CHR 0x08 then [backslash, CHR ''b'']
      else if c = CHR 0x0C then [backslash, CHR ''f'']
      else if c = CHR 0x0A then [backslash, CHR ''n'']
      else if c = CHR 0x0D then [backslash, CHR ''r'']
      else if c = CHR 0x09 then [backslash, CHR ''t'']
      else if 32 \<le> (of_char c :: nat) \<and> (of_char c :: nat) \<le> 126 then [c]
      else (let n = (of_char c :: nat) in
            [backslash, CHR ''u'', hex_digit (n div 4096 mod 16), hex_digit (n div 256 mod 16),
             hex_digit (n div 16 mod 16), hex_digit (n mod 16)]))"

definition dumps_str :: "string \<Rightarrow> string" where
  "dumps_str s = [dquote] @ concat (map escape_char s) @ [dquote]"

fun join :: "string \<Rightarrow> string list \<Rightarrow> string" where
  "join sep [] = []"
| "join sep [x] = x"
| "join sep (x # y # ys) = x @ sep @ join sep (y # ys)"

text \<open>The results of encoding the elements of a container: the first exception ends it.\<close>

fun sequence :: "('e + 'a) list \<Rightarrow> 'e + 'a list" where
  "sequence [] = Inr []"
| "sequence (Inl e # rs) = Inl e"
| "sequence (Inr x # rs) = (case sequence rs of Inl e \<Rightarrow> Inl e | Inr xs \<Rightarrow> Inr (x # xs))"

text \<open>
  \<open>json.dumps\<close> with its default arguments (separators \<open>", "\<close> and \<open>": "\<close>, no \<open>default\<close>
  hook): a \<open>str\<close>, a \<open>bool\<close>, \<open>None\<close>, a \<open>list\<close> and a \<open>dict\<close> with \<open>str\<close> keys are encoded;
  a \<open>Decimal\<close>, a \<open>Binary\<close> and a \<open>set\<close> are of no type the encoder knows and raise
  \<open>TypeError\<close> ("Object of type Decimal is not JSON serializable").
\<close>

fun dumps_value :: "pyval \<Rightarrow> pyerr + string" where
  "dumps_value (PStr s) = Inr (dumps_str s)"
| "dumps_value (PDecimal c e) = Inl TypeError"
| "dumps_value (PBool b) = Inr (if b then ''true'' else ''false'')"
| "dumps_value PNone = Inr ''null''"
| "dumps_value (PBinary b) = Inl TypeError"
| "dumps_value (PSet xs) = Inl TypeError"
| "dumps_value (PList xs) =
     (case sequence (map dumps_value xs) of
        Inl e \<Rightarrow> Inl e
      | Inr ts \<Rightarrow> Inr (''['' @ join '', '' ts @ '']''))"
| "dumps_value (PDict kvs) =
     (case sequence (map (\<lambda>kv. case dumps_value (snd kv) of
                                  Inl e \<Rightarrow> Inl e
                                | Inr t \<Rightarrow> Inr (dumps_str (fst kv) @ '': '' @ t)) kvs) of
        Inl e \<Rightarrow> Inl e
      | Inr ts \<Rightarrow> Inr (''{'' @ join '', '' ts @ ''}''))"

text \<open>\<open>json.dumps(items)\<close>, \<open>items\<close> a list of records.\<close>

definition json_dumps :: "log_record list \<Rightarrow> pyerr + string" where
  "json_dumps items = dumps_value (PList (map PDict items))"

text \<open>
  The handler. \<open>scan tn limit db\<close> is the table client's \<open>scan(Limit=limit)\<close> on the table
  named \<open>tn\<close>: it returns the response or raises, and does not change the table.
\<close>

definition api_lambda_handler ::
  "(string \<Rightarrow> nat \<Rightarrow> 'db \<Rightarrow> 'e + scan_response) \<Rightarrow> string \<Rightarrow> 'ev \<Rightarrow> 'c \<Rightarrow> 'db
     \<Rightarrow> 'e raised + json" where
  "api_lambda_handler scan tn event context db =
     (case scan tn 10 db of
        Inl e \<Rightarrow> Inl (TableFailure e)
      | Inr response \<Rightarrow>
          (let items = (case Items response of None \<Rightarrow> [] | Some xs \<Rightarrow> xs) in
           case json_dumps items of
             Inl e \<Rightarrow> Inl (Builtin e)
           | Inr body \<Rightarrow>
               Inr (JObj [(''statusCode'', JInt 200),
                          (''headers'', JObj [(''Content-Type'', JStr ''application/json'')]),
                          (''body'', JStr body)])))"



section \<open>JSON text\<close>







section \<open>A table in memory\<close>

text \<open>
  Modelled from the spec: the table capability, \<open>put(record)\<close> an upsert by \<open>id\<close> and
  \<open>scan(limit)\<close> at most \<open>limit\<close> records, over a table held as a list; and a table that is
  out of reach, whose every call raises.
\<close>

definition mem_put_item :: "string \<Rightarrow> item \<Rightarrow> item list \<Rightarrow> string + item list" where
  "mem_put_item tn it db =
     Inr (it # filter (\<lambda>r. map_of r ''id'' \<noteq> map_of it ''id'') db)"

text \<open>
  The table client serialises an item before it sends it, and its serialiser raises
  \<open>TypeError\<close> on a \<open>float\<close> anywhere in the item ("Float types are not supported. Use Decimal
  types instead"). \<open>serialising_put_item\<close> is the table in memory behind that check, the only
  one of the client's checks modelled here.
\<close>

fun has_float :: "json \<Rightarrow> bool" where
  "has_float (JFloat f) = True"
| "has_float (JArr vs) = list_ex has_float vs"
| "has_float (JObj kvs) = list_ex (\<lambda>kv. has_float (snd kv)) kvs"
| "has_float v = False"

definition serialising_put_item :: "string \<Rightarrow> item \<Rightarrow> item list \<Rightarrow> string + item list" where
  "serialising_put_item tn it db =
     (if list_ex (\<lambda>kv. has_float (snd kv)) it then Inl ''TypeError'' else mem_put_item tn it db)"


definition unreachable_put_item :: "string \<Rightarrow> item \<Rightarrow> item list \<Rightarrow> string + item list" where
  "unreachable_put_item tn it db = Inl ''EndpointConnectionError''"

definition unreachable_scan :: "string \<Rightarrow> nat \<Rightarrow> log_record list \<Rightarrow> string + scan_response" where
  "unreachable_scan tn limit db = Inl ''EndpointConnectionError''"

definition empty_world :: "item list world" where
  "empty_world = \<lparr>table_state = [], put_calls = []\<rparr>"

definition noon :: datetime where
  "noon = \<lparr>year = 2024, month = 5, day = 17, hour = 12, minute = 0, second = 0,
           microsecond = 0\<rparr>"

definition just_after_noon :: datetime where
  "just_after_noon = \<lparr>year = 2024, month = 5, day = 17, hour = 12, minute = 0, second = 0,
           microsecond = 250\<rparr>"

section \<open>The lookup of the message\<close>

text \<open>
  Where the specification's path holds a value the lookup returns it; on every event of
  the shape the lookup expects it returns that value or, the path absent, the fallback;
  on an event that is not an object it raises \<open>AttributeError\<close>.
\<close>

lemma extract_message_path:
  "spec_message_path event = Some v \<Longrightarrow> extract_message event = Inr v"
  unfolding spec_message_path_def
  by (auto simp: extract_message_def
      split: json.split_asm option.split_asm list.split_asm)

lemma extract_message_on_shape:
  assumes "lookup_shape event"
  shows "extract_message event
           = Inr (case spec_message_path event of None \<Rightarrow> JStr ''Test alert'' | Some v \<Rightarrow> v)"
proof -
  obtain ev where ev: "event = JObj ev"
    using assms by (cases event) (simp_all add: lookup_shape_def)
  show ?thesis
  proof (cases "map_of ev ''Records''")
    case None
    then show ?thesis by (simp add: ev extract_message_def spec_message_path_def)
  next
    case (Some records)
    with assms ev have recs: "case records of JArr (first # rest) \<Rightarrow>
                    (case first of
                       JObj r \<Rightarrow>
                         (case map_of r ''Sns'' of
                            None \<Rightarrow> True
                          | Some sns \<Rightarrow> (case sns of JObj s \<Rightarrow> True | _ \<Rightarrow> False))
                     | _ \<Rightarrow> False)
                | _ \<Rightarrow> False"
      by (simp add: lookup_shape_def)
    then obtain first rest where records: "records = JArr (first # rest)"
      by (cases records) (simp_all split: list.split_asm)
    with recs obtain r where first: "first = JObj r"
      by (cases first) simp_all
    show ?thesis
    proof (cases "map_of r ''Sns''")
      case None
      then show ?thesis
        by (simp add: ev Some records first extract_message_def spec_message_path_def)
    next
      case sns: (Some sns)
      with recs records first obtain s where s: "sns = JObj s"
        by (cases sns) simp_all
      show ?thesis
        by (cases "map_of s ''Message''")
          (simp_all add: ev Some records first sns s extract_message_def spec_message_path_def)
    qed
  qed
qed

lemma extract_message_not_object:
  "\<not> is_object event \<Longrightarrow> extract_message event = Inl AttributeError"
  by (cases event) (simp_all add: extract_message_def)

text \<open>
  Once the lookup has returned, the handler calls \<open>put_item\<close> once, with the item of the two
  attributes \<open>id\<close> and \<open>message\<close>, and what it returns depends on that call alone.
\<close>

lemma handler_after_extract:
  "extract_message event = Inr m \<Longrightarrow>
   lambda_handler put_item tn now event context w =
     (case put_item tn [(''id'', JStr (isoformat now)), (''message'', m)] (table_state w) of
        Inl e \<Rightarrow> (Inl (TableFailure e),
                  w\<lparr>put_calls := put_calls w @ [[(''id'', JStr (isoformat now)), (''message'', m)]]\<rparr>)
      | Inr db' \<Rightarrow>
          (Inr (JObj [(''statusCode'', JInt 200), (''body'', JStr ''Log stored'')]),
           w\<lparr>put_calls := put_calls w @ [[(''id'', JStr (isoformat now)), (''message'', m)]],
              table_state := db'\<rparr>))"
  by (simp add: lambda_handler_def Let_def split: sum.splits)

lemma handler_put_calls:
  "extract_message event = Inr m \<Longrightarrow>
   put_calls (snd (lambda_handler put_item tn now event context w))
     = put_calls w @ [[(''id'', JStr (isoformat now)), (''message'', m)]]"
  by (simp add: handler_after_extract split: sum.splits)

text \<open>
  The fallback: an object without \<open>Records\<close>, a first record without \<open>Sns\<close> and an \<open>Sns\<close>
  without \<open>Message\<close> all give the message \<open>Test alert\<close>.
\<close>

lemma fallback_message:
  "extract_message (JObj []) = Inr (JStr ''Test alert'')"
  "map_of ev ''Records'' = None \<Longrightarrow> extract_message (JObj ev) = Inr (JStr ''Test alert'')"
  "map_of ev ''Records'' = Some (JArr (JObj r # rest)) \<Longrightarrow> map_of r ''Sns'' = None
     \<Longrightarrow> extract_message (JObj ev) = Inr (JStr ''Test alert'')"
  "map_of ev ''Records'' = Some (JArr (JObj r # rest)) \<Longrightarrow> map_of r ''Sns'' = Some (JObj s)
     \<Longrightarrow> map_of s ''Message'' = None \<Longrightarrow> extract_message (JObj ev) = Inr (JStr ''Test alert'')"
  by (simp_all add: extract_message_def)

section \<open>The Notifier Handler on events without the message\<close>

text \<open>
  C1. The claim is that every event in which the path \<open>Records[0].Sns.Message\<close> is absent,
  the event whose \<open>Records\<close> is the empty list among them, gets the message
  \<open>Test alert\<close>. On the event \<open>{"Records": []}\<close> the path is absent, yet the default
  \<open>[{}]\<close> of the first \<open>get\<close> is not used (the key is there), \<open>[][0]\<close> raises
  \<open>IndexError\<close>, and the handler ends before any \<open>put_item\<close>: the world is unchanged.
\<close>

theorem empty_records_raises_index_error:
  "spec_message_path (JObj [(''Records'', JArr [])]) = None \<and>
   lambda_handler put_item tn now (JObj [(''Records'', JArr [])]) context w
     = (Inl (Builtin IndexError), w)"
  by (simp add: spec_message_path_def lambda_handler_def extract_message_def)

text \<open>
  C2, as stated: the handler raises on no JSON-compatible event. It does on an event that
  is not an object, here the string \<open>"hello"\<close>, which has no method \<open>get\<close>.
\<close>

theorem non_object_event_raises:
  "lambda_handler mem_put_item ''CostTrackerLogs'' noon (JStr ''hello'') () empty_world
     = (Inl (Builtin AttributeError), empty_world)"
  by (simp add: lambda_handler_def extract_message_def)

text \<open>
  C2, amended. On every event that is an object whose \<open>Records\<close>, when present, is a list
  starting with an object whose \<open>Sns\<close>, when present, is an object, the handler raises
  nothing of its own: it makes its single \<open>put_item\<close>, with the message at the path
  \<open>Records[0].Sns.Message\<close> when the path is present and the fallback \<open>Test alert\<close>
  when it is absent, and returns the success response when that call succeeds; a failure
  of the call is the only exception that leaves it. On every event that is not an object
  the handler raises \<open>AttributeError\<close> before any \<open>put_item\<close>.
\<close>

theorem handler_reaches_put_on_lookup_shape:
  "(lookup_shape event \<longrightarrow>
      (let item = [(''id'', JStr (isoformat now)),
                   (''message'', case spec_message_path event of
                                   None \<Rightarrow> JStr ''Test alert'' | Some v \<Rightarrow> v)]
       in lambda_handler put_item tn now event ctx w =
            (case put_item tn item (table_state w) of
               Inl e \<Rightarrow>
                 (Inl (TableFailure e),
                  \<lparr>table_state = table_state w, put_calls = put_calls w @ [item]\<rparr>)
             | Inr db' \<Rightarrow>
                 (Inr (JObj [(''statusCode'', JInt 200), (''body'', JStr ''Log stored'')]),
                  \<lparr>table_state = db', put_calls = put_calls w @ [item]\<rparr>))))
   \<and> (\<not> is_object event \<longrightarrow>
        lambda_handler put_item tn now event ctx w = (Inl (Builtin AttributeError), w))"
proof (intro conjI impI)
  assume "lookup_shape event"
  then have m: "extract_message event
      = Inr (case spec_message_path event of None \<Rightarrow> JStr ''Test alert'' | Some v \<Rightarrow> v)"
    by (rule extract_message_on_shape)
  show "let item = [(''id'', JStr (isoformat now)),
                   (''message'', case spec_message_path event of
                                   None \<Rightarrow> JStr ''Test alert'' | Some v \<Rightarrow> v)]
       in lambda_handler put_item tn now event ctx w =
            (case put_item tn item (table_state w) of
               Inl e \<Rightarrow>
                 (Inl (TableFailure e),
                  \<lparr>table_state = table_state w, put_calls = put_calls w @ [item]\<rparr>)
             | Inr db' \<Rightarrow>
                 (Inr (JObj [(''statusCode'', JInt 200), (''body'', JStr ''Log stored'')]),
                  \<lparr>table_state = db', put_calls = put_calls w @ [item]\<rparr>))"
    by (simp add: Let_def handler_after_extract [OF m] split: sum.splits)
next
  assume "\<not> is_object event"
  from extract_message_not_object [OF this]
  show "lambda_handler put_item tn now event ctx w = (Inl (Builtin AttributeError), w)"
    by (simp add: lambda_handler_def)
qed

text \<open>
  The amended C2 at the event \<open>{"Records": [{"Sns": {}}]}\<close> and at the event
  \<open>["alarm"]\<close>, on the table in memory.
\<close>

theorem handler_reaches_put_on_lookup_shape_witness:
  "lookup_shape (JObj [(''Records'', JArr [JObj [(''Sns'', JObj [])]])]) \<and>
   lambda_handler mem_put_item ''CostTrackerLogs'' noon
       (JObj [(''Records'', JArr [JObj [(''Sns'', JObj [])]])]) () empty_world
     = (Inr (JObj [(''statusCode'', JInt 200), (''body'', JStr ''Log stored'')]),
        \<lparr>table_state = [[(''id'', JStr (isoformat noon)), (''message'', JStr ''Test alert'')]],
         put_calls = [[(''id'', JStr (isoformat noon)), (''message'', JStr ''Test alert'')]]\<rparr>) \<and>
   \<not> is_object (JArr [JStr ''alarm'']) \<and>
   lambda_handler mem_put_item ''CostTrackerLogs'' noon (JArr [JStr ''alarm'']) () empty_world
     = (Inl (Builtin AttributeError), empty_world)"
proof -
  have h1: "lookup_shape (JObj [(''Records'', JArr [JObj [(''Sns'', JObj [])]])])"
    by (simp add: lookup_shape_def)
  have p: "spec_message_path (JObj [(''Records'', JArr [JObj [(''Sns'', JObj [])]])]) = None"
    by (simp add: spec_message_path_def)
  have h2: "\<not> is_object (JArr [JStr ''alarm''])" by simp
  show ?thesis
    using h1 h2 p
      handler_reaches_put_on_lookup_shape [where put_item = mem_put_item
        and event = "JObj [(''Records'', JArr [JObj [(''Sns'', JObj [])]])]"
        and tn = "''CostTrackerLogs''" and now = noon and ctx = "()" and w = empty_world]
      handler_reaches_put_on_lookup_shape [where put_item = mem_put_item
        and event = "JArr [JStr ''alarm'']"
        and tn = "''CostTrackerLogs''" and now = noon and ctx = "()" and w = empty_world]
    by (simp add: Let_def mem_put_item_def empty_world_def)
qed

section \<open>The Notifier Handler on events with the message\<close>

text \<open>
  C3. For every well-formed event, a non-empty list under \<open>Records\<close> whose first element
  holds \<open>Sns.Message\<close> with the string \<open>M\<close>, the handler writes the record whose
  \<open>message\<close> is \<open>M\<close> (and whose \<open>id\<close> is the timestamp): it applies \<open>put_item\<close> to that
  record on the table as it is, the table is afterwards in the state that call returned,
  and the success response is returned; if the call raises, the table is as it was.
\<close>

theorem message_at_path_is_written:
  assumes "spec_message_path event = Some (JStr M)"
  shows "lambda_handler put_item tn now event ctx w =
     (case put_item tn [(''id'', JStr (isoformat now)), (''message'', JStr M)] (table_state w) of
        Inl e \<Rightarrow>
          (Inl (TableFailure e),
           \<lparr>table_state = table_state w,
            put_calls = put_calls w @ [[(''id'', JStr (isoformat now)), (''message'', JStr M)]]\<rparr>)
      | Inr db' \<Rightarrow>
          (Inr (JObj [(''statusCode'', JInt 200), (''body'', JStr ''Log stored'')]),
           \<lparr>table_state = db',
            put_calls = put_calls w @ [[(''id'', JStr (isoformat now)), (''message'', JStr M)]]\<rparr>))"
proof -
  have m: "extract_message event = Inr (JStr M)"
    by (rule extract_message_path [OF assms])
  show ?thesis
    by (simp add: handler_after_extract [OF m] split: sum.splits)
qed

text \<open>
  C3 on Scenario A of the specification, the event of a CPU alarm, written to an empty table
  in memory: the table then holds the record.
\<close>

theorem message_at_path_is_written_witness:
  "spec_message_path (JObj [(''Records'', JArr [JObj [(''Sns'',
       JObj [(''Message'', JStr ''CPU alarm triggered'')])]])])
     = Some (JStr ''CPU alarm triggered'') \<and>
   lambda_handler mem_put_item ''CostTrackerLogs'' just_after_noon
       (JObj [(''Records'', JArr [JObj [(''Sns'',
          JObj [(''Message'', JStr ''CPU alarm triggered'')])]])]) () empty_world
     = (Inr (JObj [(''statusCode'', JInt 200), (''body'', JStr ''Log stored'')]),
        \<lparr>table_state = [[(''id'', JStr (isoformat just_after_noon)),
                          (''message'', JStr ''CPU alarm triggered'')]],
         put_calls = [[(''id'', JStr (isoformat just_after_noon)),
                       (''message'', JStr ''CPU alarm triggered'')]]\<rparr>)"
proof -
  have h: "spec_message_path (JObj [(''Records'', JArr [JObj [(''Sns'',
       JObj [(''Message'', JStr ''CPU alarm triggered'')])]])])
     = Some (JStr ''CPU alarm triggered'')"
    by (simp add: spec_message_path_def)
  show ?thesis
    using h message_at_path_is_written [OF h, where put_item = mem_put_item
        and tn = "''CostTrackerLogs''" and now = just_after_noon and ctx = "()"
        and w = empty_world]
    by (simp add: mem_put_item_def empty_world_def)
qed

text \<open>
  C5. On every invocation on which the put succeeds (the lookup returned the message \<open>m\<close> and
  \<open>put_item\<close>, called with the record of the timestamp and \<open>m\<close>, returned the new state of the
  table), the handler has made exactly that one call, the table is in the state the call
  returned, and the handler returns exactly \<open>{"statusCode": 200, "body": "Log stored"}\<close>.
\<close>

theorem put_success_one_put_and_response:
  assumes "extract_message event = Inr m"
    and "put_item tn [(''id'', JStr (isoformat now)), (''message'', m)] (table_state w) = Inr db'"
  shows "lambda_handler put_item tn now event ctx w =
           (Inr (JObj [(''statusCode'', JInt 200), (''body'', JStr ''Log stored'')]),
            \<lparr>table_state = db',
             put_calls = put_calls w @ [[(''id'', JStr (isoformat now)), (''message'', m)]]\<rparr>)"
  using assms by (simp add: handler_after_extract)

text \<open>C5 on Scenario B, the empty event, written to an empty table in memory.\<close>

theorem put_success_one_put_and_response_witness:
  "extract_message (JObj []) = Inr (JStr ''Test alert'') \<and>
   mem_put_item ''CostTrackerLogs'' [(''id'', JStr (isoformat noon)), (''message'', JStr ''Test alert'')]
       (table_state empty_world)
     = Inr [[(''id'', JStr (isoformat noon)), (''message'', JStr ''Test alert'')]] \<and>
   lambda_handler mem_put_item ''CostTrackerLogs'' noon (JObj []) () empty_world =
     (Inr (JObj [(''statusCode'', JInt 200), (''body'', JStr ''Log stored'')]),
      \<lparr>table_state = [[(''id'', JStr (isoformat noon)), (''message'', JStr ''Test alert'')]],
       put_calls = put_calls empty_world
          @ [[(''id'', JStr (isoformat noon)), (''message'', JStr ''Test alert'')]]\<rparr>)"
proof -
  have h1: "extract_message (JObj []) = Inr (JStr ''Test alert'')"
    by (simp add: extract_message_def)
  have h2: "mem_put_item ''CostTrackerLogs''
       [(''id'', JStr (isoformat noon)), (''message'', JStr ''Test alert'')]
       (table_state empty_world)
     = Inr [[(''id'', JStr (isoformat noon)), (''message'', JStr ''Test alert'')]]"
    by (simp add: mem_put_item_def empty_world_def)
  show ?thesis
    using h1 h2
      put_success_one_put_and_response [where event = "JObj []" and m = "JStr ''Test alert''"
        and put_item = mem_put_item and tn = "''CostTrackerLogs''" and now = noon
        and w = empty_world and ctx = "()"
        and db' = "[[(''id'', JStr (isoformat noon)), (''message'', JStr ''Test alert'')]]"]
    by simp
qed

text \<open>
  C10, as stated: whatever the value \<open>v\<close> at the path is, the handler stores it. The handler
  itself checks nothing, but the record goes through the table client, whose serialiser
  refuses a \<open>float\<close>: on the event \<open>{"Records": [{"Sns": {"Message": 1.5}}]}\<close> the one
  \<open>put_item\<close> raises \<open>TypeError\<close>, the handler raises it in turn, and nothing is stored.
\<close>

theorem float_message_not_stored:
  "spec_message_path
       (JObj [(''Records'', JArr [JObj [(''Sns'', JObj [(''Message'', JFloat 0x3FF8000000000000)])]])])
     = Some (JFloat 0x3FF8000000000000) \<and>
   lambda_handler serialising_put_item ''CostTrackerLogs'' noon
       (JObj [(''Records'', JArr [JObj [(''Sns'', JObj [(''Message'', JFloat 0x3FF8000000000000)])]])])
       () empty_world
     = (Inl (TableFailure ''TypeError''),
        \<lparr>table_state = [],
         put_calls = [[(''id'', JStr (isoformat noon)),
                       (''message'', JFloat 0x3FF8000000000000)]]\<rparr>)"
  by (simp add: spec_message_path_def lambda_handler_def extract_message_def
      serialising_put_item_def empty_world_def)

text \<open>
  C10, amended. For every event whose path \<open>Records[0].Sns.Message\<close> holds a value \<open>v\<close>, of
  any type and empty or not, the handler makes its one \<open>put_item\<close> with the record of the two
  attributes \<open>id\<close> and \<open>message\<close> and no other, \<open>v\<close> itself the \<open>message\<close>. When that call
  succeeds the table is in the state it returned, \<open>v\<close> stored as it was handed over, and the
  success response is returned; when it raises, the exception leaves the handler and the
  table is as it was.
\<close>

theorem message_handed_to_put_verbatim:
  assumes "spec_message_path event = Some v"
  shows "lambda_handler put_item tn now event ctx w =
     (case put_item tn [(''id'', JStr (isoformat now)), (''message'', v)] (table_state w) of
        Inl e \<Rightarrow>
          (Inl (TableFailure e),
           \<lparr>table_state = table_state w,
            put_calls = put_calls w @ [[(''id'', JStr (isoformat now)), (''message'', v)]]\<rparr>)
      | Inr db' \<Rightarrow>
          (Inr (JObj [(''statusCode'', JInt 200), (''body'', JStr ''Log stored'')]),
           \<lparr>table_state = db',
            put_calls = put_calls w @ [[(''id'', JStr (isoformat now)), (''message'', v)]]\<rparr>))"
proof -
  have m: "extract_message event = Inr v"
    by (rule extract_message_path [OF assms])
  show ?thesis
    by (simp add: handler_after_extract [OF m] split: sum.splits)
qed

text \<open>
  The amended C10 on a message that is the number 7 and on one that is the empty string,
  written to an empty table in memory.
\<close>

theorem message_handed_to_put_verbatim_witness:
  "spec_message_path (JObj [(''Records'', JArr [JObj [(''Sns'', JObj [(''Message'', JInt 7)])]])])
     = Some (JInt 7) \<and>
   spec_message_path (JObj [(''Records'', JArr [JObj [(''Sns'', JObj [(''Message'', JStr [])])]])])
     = Some (JStr []) \<and>
   lambda_handler mem_put_item ''CostTrackerLogs'' noon
       (JObj [(''Records'', JArr [JObj [(''Sns'', JObj [(''Message'', JInt 7)])]])]) () empty_world
     = (Inr (JObj [(''statusCode'', JInt 200), (''body'', JStr ''Log stored'')]),
        \<lparr>table_state = [[(''id'', JStr (isoformat noon)), (''message'', JInt 7)]],
         put_calls = [[(''id'', JStr (isoformat noon)), (''message'', JInt 7)]]\<rparr>) \<and>
   lambda_handler mem_put_item ''CostTrackerLogs'' noon
       (JObj [(''Records'', JArr [JObj [(''Sns'', JObj [(''Message'', JStr [])])]])]) () empty_world
     = (Inr (JObj [(''statusCode'', JInt 200), (''body'', JStr ''Log stored'')]),
        \<lparr>table_state = [[(''id'', JStr (isoformat noon)), (''message'', JStr [])]],
         put_calls = [[(''id'', JStr (isoformat noon)), (''message'', JStr [])]]\<rparr>)"
proof -
  have h1: "spec_message_path
      (JObj [(''Records'', JArr [JObj [(''Sns'', JObj [(''Message'', JInt 7)])]])])
     = Some (JInt 7)"
    by (simp add: spec_message_path_def)
  have h2: "spec_message_path
      (JObj [(''Records'', JArr [JObj [(''Sns'', JObj [(''Message'', JStr [])])]])])
     = Some (JStr [])"
    by (simp add: spec_message_path_def)
  show ?thesis
    using h1 h2
      message_handed_to_put_verbatim [OF h1, where put_item = mem_put_item
        and tn = "''CostTrackerLogs''" and now = noon and ctx = "()" and w = empty_world]
      message_handed_to_put_verbatim [OF h2, where put_item = mem_put_item
        and tn = "''CostTrackerLogs''" and now = noon and ctx = "()" and w = empty_world]
    by (simp add: mem_put_item_def empty_world_def)
qed

section \<open>The Log Reader Handler\<close>

text \<open>
  C9. Two invocations of the Log Reader Handler over the same state of the table give the
  same outcome, whatever the two requests and the two contexts are.
\<close>

theorem reader_ignores_event:
  "api_lambda_handler scan tn event1 ctx1 db = api_lambda_handler scan tn event2 ctx2 db"
  by (simp add: api_lambda_handler_def)

section \<open>The body of the Log Reader's response\<close>
























section \<open>Failures of the table and of the configuration\<close>

text \<open>
  C7. When \<open>put_item\<close> raises \<open>e\<close>, the Notifier Handler raises \<open>e\<close> itself and returns no
  response; it has made that one call and no other, and the table is in the state it was
  in. When \<open>scan\<close> raises \<open>e'\<close>, the Log Reader Handler raises \<open>e'\<close> itself and returns no
  response, hence no list.
\<close>

theorem table_failure_propagates:
  "(extract_message event = Inr m \<longrightarrow>
      put_item tn [(''id'', JStr (isoformat now)), (''message'', m)] (table_state w) = Inl e \<longrightarrow>
      lambda_handler put_item tn now event ctx w =
        (Inl (TableFailure e),
         \<lparr>table_state = table_state w,
          put_calls = put_calls w @ [[(''id'', JStr (isoformat now)), (''message'', m)]]\<rparr>))
   \<and> (scan tn' 10 db = Inl e' \<longrightarrow>
      api_lambda_handler scan tn' request ctx' db = Inl (TableFailure e'))"
  by (simp add: handler_after_extract api_lambda_handler_def)

text \<open>C7 on the table that is out of reach, for both handlers.\<close>

theorem table_failure_propagates_witness:
  "extract_message (JObj []) = Inr (JStr ''Test alert'') \<and>
   unreachable_put_item ''CostTrackerLogs''
       [(''id'', JStr (isoformat noon)), (''message'', JStr ''Test alert'')]
       (table_state empty_world) = Inl ''EndpointConnectionError'' \<and>
   lambda_handler unreachable_put_item ''CostTrackerLogs'' noon (JObj []) () empty_world =
     (Inl (TableFailure ''EndpointConnectionError''),
      \<lparr>table_state = table_state empty_world,
       put_calls = put_calls empty_world
         @ [[(''id'', JStr (isoformat noon)), (''message'', JStr ''Test alert'')]]\<rparr>) \<and>
   unreachable_scan ''CostTrackerLogs'' 10 [] = Inl ''EndpointConnectionError'' \<and>
   api_lambda_handler unreachable_scan ''CostTrackerLogs'' (JObj []) () []
     = Inl (TableFailure ''EndpointConnectionError'')"
proof -
  have h1: "extract_message (JObj []) = Inr (JStr ''Test alert'')"
    by (simp add: extract_message_def)
  have h2: "unreachable_put_item ''CostTrackerLogs''
       [(''id'', JStr (isoformat noon)), (''message'', JStr ''Test alert'')]
       (table_state empty_world) = Inl ''EndpointConnectionError''"
    by (simp add: unreachable_put_item_def)
  have h3: "unreachable_scan ''CostTrackerLogs'' 10 [] = Inl ''EndpointConnectionError''"
    by (simp add: unreachable_scan_def)
  show ?thesis
    using h1 h2 h3
      table_failure_propagates [where event = "JObj []" and m = "JStr ''Test alert''"
        and put_item = unreachable_put_item and tn = "''CostTrackerLogs''" and now = noon
        and w = empty_world and ctx = "()" and e = "''EndpointConnectionError''"
        and scan = unreachable_scan and tn' = "''CostTrackerLogs''" and db = "[]"
        and e' = "''EndpointConnectionError''"
        and request = "JObj []" and ctx' = "()"]
    by simp
qed

text \<open>
  C6. Without \<open>DDB_TABLE\<close> in the environment the initialisation of the Notifier module
  raises \<open>KeyError\<close> (there is no default), a cold start ends there with the world as it
  was and the handler not called, and the Log Reader module takes the name
  \<open>CostTrackerLogs\<close>. With \<open>DDB_TABLE\<close> set to \<open>n\<close>, both modules take the name \<open>n\<close>.
\<close>

theorem table_name_configuration:
  "(environ ''DDB_TABLE'' = None \<longrightarrow>
      table_name environ = Inl KeyError
      \<and> cold_start_invoke put_item environ now event ctx w = (Inl (Builtin KeyError), w)
      \<and> api_table_name environ = ''CostTrackerLogs'')
   \<and> (environ ''DDB_TABLE'' = Some n \<longrightarrow>
      table_name environ = Inr n
      \<and> cold_start_invoke put_item environ now event ctx w
          = lambda_handler put_item n now event ctx w
      \<and> api_table_name environ = n)"
  by (simp add: table_name_def cold_start_invoke_def api_table_name_def)

text \<open>C6 on the empty environment and on one that sets \<open>DDB_TABLE\<close> to \<open>AlertLogs\<close>.\<close>

theorem table_name_configuration_witness:
  "(Map.empty :: string \<rightharpoonup> string) ''DDB_TABLE'' = None \<and>
   table_name Map.empty = Inl KeyError \<and>
   cold_start_invoke mem_put_item Map.empty noon (JObj []) () empty_world
     = (Inl (Builtin KeyError), empty_world) \<and>
   api_table_name Map.empty = ''CostTrackerLogs'' \<and>
   [''DDB_TABLE'' \<mapsto> ''AlertLogs''] ''DDB_TABLE'' = Some ''AlertLogs'' \<and>
   table_name [''DDB_TABLE'' \<mapsto> ''AlertLogs''] = Inr ''AlertLogs'' \<and>
   cold_start_invoke mem_put_item [''DDB_TABLE'' \<mapsto> ''AlertLogs''] noon (JObj []) () empty_world
     = lambda_handler mem_put_item ''AlertLogs'' noon (JObj []) () empty_world \<and>
   api_table_name [''DDB_TABLE'' \<mapsto> ''AlertLogs''] = ''AlertLogs''"
proof -
  have h1: "(Map.empty :: string \<rightharpoonup> string) ''DDB_TABLE'' = None" by simp
  have h2: "[''DDB_TABLE'' \<mapsto> ''AlertLogs''] ''DDB_TABLE'' = Some ''AlertLogs''" by simp
  show ?thesis
    using h1 h2
      table_name_configuration [where environ = Map.empty and put_item = mem_put_item
        and now = noon and event = "JObj []" and w = empty_world and ctx = "()"]
      table_name_configuration [where environ = "[''DDB_TABLE'' \<mapsto> ''AlertLogs'']"
        and n = "''AlertLogs''" and put_item = mem_put_item
        and now = noon and event = "JObj []" and w = empty_world and ctx = "()"]
    by simp
qed

section \<open>The timestamp\<close>

text \<open>
  The fields of a valid datetime fill their widths: the rendering to the second has 19
  characters and the one to the microsecond 26.
\<close>

lemma length_dec_le: "0 < k \<Longrightarrow> n < 10 ^ k \<Longrightarrow> length (dec n) \<le> k"
proof (induction n arbitrary: k rule: dec.induct)
  case (1 n)
  show ?case
  proof (cases "n < 10")
    case True
    with "1.prems" show ?thesis by (subst dec.simps) simp
  next
    case False
    from "1.prems" obtain j where k: "k = Suc j"
      by (cases k) simp_all
    have j: "0 < j"
    proof (rule ccontr)
      assume "\<not> 0 < j"
      with "1.prems" k have "n < 10" by simp
      with False show False by simp
    qed
    from "1.prems" k have "n div 10 < 10 ^ j"
      by (simp add: less_mult_imp_div_less mult.commute)
    with "1.IH" [OF False j] have "length (dec (n div 10)) \<le> j" by simp
    with False k show ?thesis by (subst dec.simps) simp
  qed
qed

lemma length_zero_padded: "0 < k \<Longrightarrow> n < 10 ^ k \<Longrightarrow> length (zero_padded k n) = k"
  using length_dec_le [of k n] by (simp add: zero_padded_def)

lemma length_isoformat_seconds:
  assumes "valid_datetime dt"
  shows "length (isoformat_seconds dt) = 19"
proof -
  from assms have "year dt < 10 ^ 4" "month dt < 10 ^ 2" "day dt < 10 ^ 2" "hour dt < 10 ^ 2"
    "minute dt < 10 ^ 2" "second dt < 10 ^ 2"
    by (simp_all add: valid_datetime_def)
  then show ?thesis
    by (simp add: isoformat_seconds_def length_zero_padded)
qed

lemma length_iso8601_microseconds:
  assumes "valid_datetime dt"
  shows "length (iso8601_microseconds dt) = 26"
proof -
  from assms have "microsecond dt < 10 ^ 6" by (simp add: valid_datetime_def)
  then show ?thesis
    by (simp add: iso8601_microseconds_def length_isoformat_seconds [OF assms] length_zero_padded)
qed

lemma isoformat_cases:
  assumes "valid_datetime dt"
  shows "isoformat dt = (if microsecond dt = 0 then take 19 (iso8601_microseconds dt)
                         else iso8601_microseconds dt)"
  by (simp add: isoformat_def iso8601_microseconds_def length_isoformat_seconds [OF assms])

text \<open>
  C8, as stated: the \<open>id\<close> is the clock reading rendered with microsecond precision. At a
  clock reading whose microsecond field is 0, here noon of 17 May 2024, \<open>isoformat()\<close> leaves
  the fraction out and the \<open>id\<close> written is \<open>2024-05-17T12:00:00\<close>, not
  \<open>2024-05-17T12:00:00.000000\<close>.
\<close>

theorem timestamp_without_fraction:
  "put_calls (snd (lambda_handler mem_put_item ''CostTrackerLogs'' noon (JObj []) () empty_world))
     = [[(''id'', JStr ''2024-05-17T12:00:00''), (''message'', JStr ''Test alert'')]]
   \<and> iso8601_microseconds noon = ''2024-05-17T12:00:00.000000''
   \<and> isoformat noon \<noteq> iso8601_microseconds noon"
proof -
  have "isoformat noon = ''2024-05-17T12:00:00''" by code_simp
  moreover have "iso8601_microseconds noon = ''2024-05-17T12:00:00.000000''" by code_simp
  moreover have "extract_message (JObj []) = Inr (JStr ''Test alert'')"
    by (simp add: extract_message_def)
  ultimately show ?thesis
    by (simp add: handler_put_calls empty_world_def)
qed

text \<open>
  C8, amended. On every invocation that reaches the put, the \<open>id\<close> of the record is
  \<open>isoformat()\<close> of the UTC clock reading: \<open>YYYY-MM-DDTHH:MM:SS.ffffff\<close> (26 characters,
  no timezone suffix) when the microsecond field is not 0, and its first 19 characters
  \<open>YYYY-MM-DDTHH:MM:SS\<close>, without the fraction, when it is 0.
\<close>

theorem record_id_is_isoformat_of_clock:
  assumes "valid_datetime now" and "extract_message event = Inr m"
  shows "\<exists>item. put_calls (snd (lambda_handler put_item tn now event ctx w)) = put_calls w @ [item]
           \<and> map_of item ''id'' = Some (JStr (isoformat now))
           \<and> isoformat now = (if microsecond now = 0 then take 19 (iso8601_microseconds now)
                              else iso8601_microseconds now)
           \<and> length (isoformat now) = (if microsecond now = 0 then 19 else 26)"
  using assms
  by (simp add: handler_put_calls isoformat_cases length_iso8601_microseconds)

text \<open>The amended C8 at a clock reading 250 microseconds after noon.\<close>

theorem record_id_is_isoformat_of_clock_witness:
  "valid_datetime just_after_noon \<and> extract_message (JObj []) = Inr (JStr ''Test alert'') \<and>
   (\<exists>item. put_calls (snd (lambda_handler mem_put_item ''CostTrackerLogs'' just_after_noon
          (JObj []) () empty_world)) = put_calls empty_world @ [item]
           \<and> map_of item ''id'' = Some (JStr (isoformat just_after_noon))
           \<and> isoformat just_after_noon
               = (if microsecond just_after_noon = 0
                  then take 19 (iso8601_microseconds just_after_noon)
                  else iso8601_microseconds just_after_noon)
           \<and> length (isoformat just_after_noon)
               = (if microsecond just_after_noon = 0 then 19 else 26))"
proof -
  have h1: "valid_datetime just_after_noon"
    by (simp add: valid_datetime_def just_after_noon_def)
  have h2: "extract_message (JObj []) = Inr (JStr ''Test alert'')"
    by (simp add: extract_message_def)
  show ?thesis
    using h1 h2
      record_id_is_isoformat_of_clock [OF h1 h2, where put_item = mem_put_item
        and tn = "''CostTrackerLogs''" and ctx = "()" and w = empty_world]
    by simp
qed

end
